theory Spec2Isabelle
  imports Main
begin

section \<open>Data model of the schema compare panel\<close>

text \<open>
  Modelled from the spec: the enumerations and interfaces of the \<^verbatim>\<open>azdata\<close> API that
  the panel reads, whose declarations are outside the panel's file. The constructors
  and fields are the ones the panel's code names: a difference is of type \<^verbatim>\<open>Object\<close> or
  of another type (\<^verbatim>\<open>Property\<close> stands for it), its update action is \<^verbatim>\<open>Delete\<close>,
  \<^verbatim>\<open>Change\<close> or \<^verbatim>\<open>Add\<close>, and an endpoint is a \<^verbatim>\<open>database\<close> or of another type (\<^verbatim>\<open>dacpac\<close>
  stands for it).
\<close>

datatype SchemaDifferenceType = Object | Property

datatype SchemaUpdateAction = Delete | Change | Add

datatype SchemaCompareEndpointType = database | dacpac

text \<open>
  \<^verbatim>\<open>azdata.DiffEntry\<close>: a node of the difference tree. The value and script fields are
  strings that the code compares with \<^verbatim>\<open>null\<close>, so they are optional here; \<^verbatim>\<open>children\<close> is
  an array of nodes.
\<close>

datatype DiffEntry = DiffEntry
  (differenceType: SchemaDifferenceType)
  (name: string)
  (sourceValue: "string option")
  (targetValue: "string option")
  (updateAction: SchemaUpdateAction)
  (sourceScript: "string option")
  (targetScript: "string option")
  (children: "DiffEntry list")

record SchemaCompareEndpointInfo =
  endpointType :: SchemaCompareEndpointType
  databaseName :: string

text \<open>
  \<^verbatim>\<open>azdata.SchemaCompareResult\<close>, the provider's answer. \<^verbatim>\<open>errorMessage\<close> is tested for
  truthiness and \<^verbatim>\<open>differences\<close> is dereferenced without a check, so both may be absent.
\<close>

record ComparisonResult =
  success :: bool
  errorMessage :: "string option"
  operationId :: string
  differences :: "DiffEntry list option"

type_synonym DacFxServicesProvider =
  "SchemaCompareEndpointInfo \<Rightarrow> SchemaCompareEndpointInfo \<Rightarrow> ComparisonResult option"

datatype Component =
  ToolBar | SourceTargetFlexLayout | Loader | SplitView | NoDifferencesLabel
  | DifferencesTable | DiffEditor

record TableColumn =
  columnValue :: string
  cssClass :: string
  width :: "nat option"

datatype error = TypeError

text \<open>
  The fields of the class \<^verbatim>\<open>SchemaCompareResult\<close>. A container component is the list of
  its items in the order they were added; a button is its \<^verbatim>\<open>enabled\<close> flag; the table and
  the diff editor are the properties the panel writes. \<^verbatim>\<open>errorMessages\<close> records the
  calls of \<^verbatim>\<open>vscode.window.showErrorMessage\<close> and \<^verbatim>\<open>schemaCompareCalls\<close> the calls of
  \<^verbatim>\<open>service.schemaCompare\<close>, oldest first.
\<close>

record SchemaCompareResult =
  sourceName :: string
  targetName :: string
  sourceEndpointInfo :: SchemaCompareEndpointInfo
  targetEndpointInfo :: SchemaCompareEndpointInfo
  sourceDropdown :: "string list"
  targetDropdown :: "string list"
  tableData :: "string option list list"
  tableColumns :: "TableColumn list"
  selectedRows :: "nat list option"
  contentLeft :: string
  contentRight :: string
  splitView :: "Component list"
  flexModel :: "Component list"
  switchButton :: bool
  compareButton :: bool
  generateScriptButton :: bool
  comparisonResult :: "ComparisonResult option"
  errorMessages :: "string list"
  schemaCompareCalls :: "(SchemaCompareEndpointInfo \<times> SchemaCompareEndpointInfo) list"

section \<open>Script aggregation\<close>

text \<open>
  JavaScript's conversion of a nullable string to a string, as \<^verbatim>\<open>+=\<close> on a string
  applies it: \<^verbatim>\<open>null\<close> becomes the text \<^verbatim>\<open>null\<close>.
\<close>

definition toString :: "string option \<Rightarrow> string" where
  "toString v = (case v of None \<Rightarrow> ''null'' | Some s \<Rightarrow> s)"

text \<open>
  \<^verbatim>\<open>getAggregatedScript(diffEntry, getSourceScript)\<close>: \<^verbatim>\<open>script\<close> starts empty; for a node
  that is not \<^verbatim>\<open>null\<close> the script of the chosen side is appended, then \<^verbatim>\<open>forEach\<close> visits
  the children in order and appends each child's result unless it is the text \<^verbatim>\<open>null\<close>.
\<close>

function getAggregatedScript :: "DiffEntry option \<Rightarrow> bool \<Rightarrow> string" where
  "getAggregatedScript None getSourceScript = ''''"
| "getAggregatedScript (Some diffEntry) getSourceScript =
     foldl (\<lambda>script child.
              let childScript = getAggregatedScript (Some child) getSourceScript
              in if childScript \<noteq> ''null'' then script @ childScript else script)
           ('''' @ toString (if getSourceScript then sourceScript diffEntry
                             else targetScript diffEntry))
           (children diffEntry)"
  by pat_completeness auto
termination
proof (relation "measure (\<lambda>(d, g). size_option size d)")
  show "wf (measure (\<lambda>(d, g). size_option size d))"
    by simp
next
  fix diffEntry :: DiffEntry and getSourceScript :: bool and x :: DiffEntry
  assume "x \<in> set (children diffEntry)"
  then have "size x < size diffEntry"
    by (cases diffEntry)
      (auto dest: size_list_estimation' [where f = size and y = "size x"]
        simp: less_Suc_eq_le)
  then show "((Some x, getSourceScript), (Some diffEntry, getSourceScript))
      \<in> measure (\<lambda>(d, g). size_option size d)"
    by simp
qed

declare getAggregatedScript.simps(2) [simp del]

section \<open>Rows of the result table\<close>

text \<open>
  The constructor fills \<^verbatim>\<open>SchemaCompareActionMap\<close> with one label per update action;
  \<^verbatim>\<open>localize\<close> yields its default text.
\<close>

definition SchemaCompareActionMap :: "SchemaUpdateAction \<rightharpoonup> string" where
  "SchemaCompareActionMap =
     [Delete \<mapsto> ''Delete'', Change \<mapsto> ''Change'', Add \<mapsto> ''Add'']"

text \<open>
  \<^verbatim>\<open>getAllDifferences(differences)\<close>: \<^verbatim>\<open>forEach\<close> over the array, pushing one four-cell
  row for an entry that passes both tests. A cell is a string or no value.
\<close>

definition getAllDifferences :: "DiffEntry list \<Rightarrow> string option list list" where
  "getAllDifferences diffs =
     foldl (\<lambda>data difference.
              if differenceType difference = Object then
                if sourceValue difference \<noteq> None \<or> targetValue difference \<noteq> None then
                  data @ [[Some (name difference), sourceValue difference,
                           SchemaCompareActionMap (updateAction difference),
                           targetValue difference]]
                else data
              else data)
           [] diffs"

section \<open>The panel\<close>

text \<open>
  Modelled from the spec: the host's container components, whose \<^verbatim>\<open>addItem\<close> and
  \<^verbatim>\<open>removeItem\<close> are outside the panel's file. A container is the list of the rendered
  surfaces it holds: \<^verbatim>\<open>addItem\<close> appends the component, \<^verbatim>\<open>removeItem\<close> takes out its first
  occurrence and leaves a container without it unchanged.
\<close>

definition addItem :: "Component \<Rightarrow> Component list \<Rightarrow> Component list" where
  "addItem c items = items @ [c]"

definition removeItem :: "Component \<Rightarrow> Component list \<Rightarrow> Component list" where
  "removeItem c items = remove1 c items"

definition showErrorMessage :: "string \<Rightarrow> SchemaCompareResult \<Rightarrow> SchemaCompareResult" where
  "showErrorMessage message this = this\<lparr>errorMessages := errorMessages this @ [message]\<rparr>"

text \<open>The message \<^verbatim>\<open>Schema Compare failed '{0}'\<close> with its argument filled in.\<close>

definition compareErrorMessage :: "string \<Rightarrow> string" where
  "compareErrorMessage arg = ''Schema Compare failed '' @ [CHR 0x27] @ arg @ [CHR 0x27]"

text \<open>A string is truthy when it is neither absent nor empty.\<close>

definition truthy :: "string option \<Rightarrow> bool" where
  "truthy v = (case v of None \<Rightarrow> False | Some s \<Rightarrow> s \<noteq> [])"

definition resultColumns :: "TableColumn list" where
  "resultColumns =
     [\<lparr>columnValue = ''Type'', cssClass = ''align-with-header'', width = Some 50\<rparr>,
      \<lparr>columnValue = ''Source Name'', cssClass = ''align-with-header'', width = None\<rparr>,
      \<lparr>columnValue = ''Action'', cssClass = ''align-with-header'', width = Some 30\<rparr>,
      \<lparr>columnValue = ''Target Name'', cssClass = ''align-with-header'', width = None\<rparr>]"

text \<open>
  The constructor and the content callback it registers: an empty table, both panes of
  the diff editor holding one newline, the three buttons disabled, and the flex model
  holding the toolbar, the source and target row and the loader.
\<close>

definition SchemaCompareResult_new ::
  "string \<Rightarrow> string \<Rightarrow> SchemaCompareEndpointInfo \<Rightarrow> SchemaCompareEndpointInfo
    \<Rightarrow> SchemaCompareResult" where
  "SchemaCompareResult_new sName tName sInfo tInfo =
     \<lparr>sourceName = sName, targetName = tName,
      sourceEndpointInfo = sInfo, targetEndpointInfo = tInfo,
      sourceDropdown = [sName], targetDropdown = [tName],
      tableData = [], tableColumns = [], selectedRows = None,
      contentLeft = [CHR 0x0A], contentRight = [CHR 0x0A],
      splitView = [], flexModel = [ToolBar, SourceTargetFlexLayout, Loader],
      switchButton = False, compareButton = False, generateScriptButton = False,
      comparisonResult = None, errorMessages = [], schemaCompareCalls = []\<rparr>"

text \<open>
  \<^verbatim>\<open>execute()\<close>. The provider is a parameter: \<^verbatim>\<open>service\<close> gives the answer of
  \<^verbatim>\<open>schemaCompare\<close> for two endpoints. A thrown \<^verbatim>\<open>TypeError\<close> ends the method and keeps
  the writes made before it, so the error comes with the state reached. Reading
  \<^verbatim>\<open>errorMessage\<close> of an absent result throws while the argument of
  \<^verbatim>\<open>showErrorMessage\<close> is evaluated, and \<^verbatim>\<open>forEach\<close> on absent differences throws
  inside \<^verbatim>\<open>getAllDifferences\<close>. The layout of the split view and the registrations at
  the end of the method (the row selection handler, below, and the two document
  content providers) write none of the fields.
\<close>

definition execute ::
  "DacFxServicesProvider \<Rightarrow> SchemaCompareResult
    \<Rightarrow> (error \<times> SchemaCompareResult) + SchemaCompareResult" where
  "execute service this0 =
     (let this = this0\<lparr>comparisonResult :=
                   service (sourceEndpointInfo this0) (targetEndpointInfo this0),
                 schemaCompareCalls := schemaCompareCalls this0 @
                   [(sourceEndpointInfo this0, targetEndpointInfo this0)]\<rparr>
      in case comparisonResult this of
           None \<Rightarrow> Inl (TypeError, this)
         | Some result \<Rightarrow>
            (let this = (if \<not> success result
                         then showErrorMessage
                                (compareErrorMessage
                                   (if truthy (errorMessage result)
                                    then the (errorMessage result) else ''Unknown'')) this
                         else this)
             in (case differences result of
                  None \<Rightarrow> Inl (TypeError, this)
                | Some diffs \<Rightarrow>
                   (let data = getAllDifferences diffs;
                        this = this\<lparr>tableData := data, tableColumns := resultColumns\<rparr>;
                        this = this\<lparr>splitView := addItem DifferencesTable (splitView this)\<rparr>;
                        this = this\<lparr>splitView := addItem DiffEditor (splitView this)\<rparr>;
                        this = this\<lparr>flexModel := removeItem Loader (flexModel this)\<rparr>;
                        this = this\<lparr>switchButton := True\<rparr>;
                        this = this\<lparr>compareButton := True\<rparr>;
                        this = (if endpointType (targetEndpointInfo this) = database
                                then this\<lparr>generateScriptButton := True\<rparr> else this);
                        this = (if length diffs > 0
                                then this\<lparr>flexModel := addItem SplitView (flexModel this)\<rparr>
                                else this\<lparr>flexModel :=
                                       addItem NoDifferencesLabel (flexModel this)\<rparr>)
                    in Inr this))))"

definition start ::
  "DacFxServicesProvider \<Rightarrow> SchemaCompareResult
    \<Rightarrow> (error \<times> SchemaCompareResult) + SchemaCompareResult" where
  "start service this = execute service this"

text \<open>The state a run ends in, whether it returned or threw.\<close>

definition stateOf ::
  "(error \<times> SchemaCompareResult) + SchemaCompareResult \<Rightarrow> SchemaCompareResult" where
  "stateOf r = (case r of Inl (e, this) \<Rightarrow> this | Inr this \<Rightarrow> this)"

text \<open>
  The handler of \<^verbatim>\<open>onRowSelected\<close>: the first selected row indexes the differences; an
  index with no entry there changes nothing. A side whose script is \<^verbatim>\<open>null\<close> shows one
  newline, any other side its aggregated script.
\<close>

definition onRowSelected ::
  "SchemaCompareResult \<Rightarrow> (error \<times> SchemaCompareResult) + SchemaCompareResult" where
  "onRowSelected this =
     (case comparisonResult this of
        None \<Rightarrow> Inl (TypeError, this)
      | Some result \<Rightarrow>
          (case differences result of
             None \<Rightarrow> Inl (TypeError, this)
           | Some diffs \<Rightarrow>
               (case selectedRows this of
                  None \<Rightarrow> Inl (TypeError, this)
                | Some [] \<Rightarrow> Inr this
                | Some (i # rest) \<Rightarrow>
                    if i < length diffs then
                      let difference = diffs ! i;
                          sourceText = (if sourceScript difference = None then [CHR 0x0A]
                                        else getAggregatedScript (Some difference) True);
                          targetText = (if targetScript difference = None then [CHR 0x0A]
                                        else getAggregatedScript (Some difference) False)
                      in Inr (this\<lparr>contentLeft := sourceText, contentRight := targetText\<rparr>)
                    else Inr this)))"

text \<open>
  \<^verbatim>\<open>reExecute()\<close>: the statements before the call of \<^verbatim>\<open>execute\<close>, then the call.
\<close>

definition reExecute_reset :: "SchemaCompareResult \<Rightarrow> SchemaCompareResult" where
  "reExecute_reset this0 =
     (let this = this0\<lparr>flexModel := removeItem SplitView (flexModel this0)\<rparr>;
          this = this\<lparr>flexModel := removeItem NoDifferencesLabel (flexModel this)\<rparr>;
          this = this\<lparr>flexModel := addItem Loader (flexModel this)\<rparr>;
          this = this\<lparr>contentLeft := [CHR 0x0A], contentRight := [CHR 0x0A]\<rparr>;
          this = this\<lparr>selectedRows := None\<rparr>;
          this = this\<lparr>compareButton := False\<rparr>;
          this = this\<lparr>switchButton := False\<rparr>;
          this = this\<lparr>generateScriptButton := False\<rparr>
      in this)"

definition reExecute ::
  "DacFxServicesProvider \<Rightarrow> SchemaCompareResult
    \<Rightarrow> (error \<times> SchemaCompareResult) + SchemaCompareResult" where
  "reExecute service this = execute service (reExecute_reset this)"

text \<open>The click handlers of the compare button and of the switch button.\<close>

definition compareButton_onDidClick ::
  "DacFxServicesProvider \<Rightarrow> SchemaCompareResult
    \<Rightarrow> (error \<times> SchemaCompareResult) + SchemaCompareResult" where
  "compareButton_onDidClick service this = reExecute service this"

definition switchButton_onDidClick ::
  "DacFxServicesProvider \<Rightarrow> SchemaCompareResult
    \<Rightarrow> (error \<times> SchemaCompareResult) + SchemaCompareResult" where
  "switchButton_onDidClick service this0 =
     (let this = this0\<lparr>sourceDropdown := targetDropdown this0,
                          targetDropdown := sourceDropdown this0\<rparr>;
          this = this\<lparr>sourceEndpointInfo := targetEndpointInfo this,
                        targetEndpointInfo := sourceEndpointInfo this\<rparr>;
          this = this\<lparr>sourceName := targetName this, targetName := sourceName this\<rparr>
      in reExecute service this)"

section \<open>The default file of a generated script\<close>

text \<open>
  The fields of \<^verbatim>\<open>new Date()\<close> that the handler reads; \<^verbatim>\<open>getMonth\<close> counts from zero.
\<close>

record Date =
  getFullYear :: nat
  getMonth :: nat
  getDate :: nat
  getHours :: nat
  getMinutes :: nat

text \<open>
  The string of a number, as \<^verbatim>\<open>+\<close> with a string operand converts it: for the
  non-negative integers that the date fields are, the decimal digits without padding.
\<close>

definition digitChar :: "nat \<Rightarrow> char" where
  "digitChar d = ''0123456789'' ! d"

fun numberToString :: "nat \<Rightarrow> string" where
  "numberToString n =
     (if n < 10 then [digitChar n]
      else numberToString (n div 10) @ [digitChar (n mod 10)])"

declare numberToString.simps [simp del]

definition datetime :: "Date \<Rightarrow> string" where
  "datetime now =
     numberToString (getFullYear now) @ ''-'' @ numberToString (getMonth now + 1) @ ''-'' @
     numberToString (getDate now) @ ''-'' @ numberToString (getHours now) @ ''-'' @
     numberToString (getMinutes now)"

text \<open>
  \<^verbatim>\<open>defaultFilePath\<close> of the click handler of the generate-script button. \<^verbatim>\<open>path.join\<close>
  and \<^verbatim>\<open>os.homedir()\<close> belong to the platform and are parameters.
\<close>

definition defaultFilePath ::
  "(string \<Rightarrow> string \<Rightarrow> string) \<Rightarrow> string \<Rightarrow> SchemaCompareResult \<Rightarrow> Date \<Rightarrow> string" where
  "defaultFilePath path_join homedir this now =
     path_join homedir (targetName this @ ''_Update_'' @ datetime now @ ''.sql'')"

section \<open>The specification's vocabulary\<close>

text \<open>
  The row filter, the action labels and the row of the specification's
  \<^verbatim>\<open>flattenForDisplay\<close>, written from its words.
\<close>

definition qualifies :: "DiffEntry \<Rightarrow> bool" where
  "qualifies node \<longleftrightarrow>
     differenceType node = Object \<and> (sourceValue node \<noteq> None \<or> targetValue node \<noteq> None)"

fun actionLabel :: "SchemaUpdateAction \<Rightarrow> string" where
  "actionLabel Delete = ''Delete''"
| "actionLabel Change = ''Change''"
| "actionLabel Add = ''Add''"

definition displayRow :: "DiffEntry \<Rightarrow> string option list" where
  "displayRow node =
     [Some (name node), sourceValue node, Some (actionLabel (updateAction node)),
      targetValue node]"

text \<open>The script field of a node for a side: \<^verbatim>\<open>pick(node, side)\<close>.\<close>

definition pick :: "DiffEntry \<Rightarrow> bool \<Rightarrow> string option" where
  "pick node getSourceScript =
     (if getSourceScript then sourceScript node else targetScript node)"



text \<open>
  The file name pattern
  \<^verbatim>\<open><targetName>_Update_<year>-<month>-<day>-<hour>-<minute>.sql\<close>.
\<close>

definition fileNamePattern ::
  "string \<Rightarrow> string \<Rightarrow> string \<Rightarrow> string \<Rightarrow> string \<Rightarrow> string \<Rightarrow> string" where
  "fileNamePattern tName year month day hour minute =
     concat [tName, ''_Update_'', year, ''-'', month, ''-'', day, ''-'', hour, ''-'', minute,
             ''.sql'']"

text \<open>The number that a string of decimal digits denotes.\<close>

definition decimalValue :: "string \<Rightarrow> nat" where
  "decimalValue s = foldl (\<lambda>v c. 10 * v + (of_char c - 48)) 0 s"

text \<open>
  The panel's states: \<^verbatim>\<open>Loading\<close> shows the loader below the toolbar and the source and
  target row, \<^verbatim>\<open>Populated\<close> shows the split view with the table when there are
  differences and the label otherwise.
\<close>

definition Loading :: "SchemaCompareResult \<Rightarrow> bool" where
  "Loading this \<longleftrightarrow> flexModel this = [ToolBar, SourceTargetFlexLayout, Loader]"

definition Populated :: "bool \<Rightarrow> SchemaCompareResult \<Rightarrow> bool" where
  "Populated hasDifferences this \<longleftrightarrow>
     flexModel this =
       [ToolBar, SourceTargetFlexLayout,
        if hasDifferences then SplitView else NoDifferencesLabel]"

text \<open>
  What \<^verbatim>\<open>reExecute\<close> leaves before it calls \<^verbatim>\<open>execute\<close>: the loader shown and neither the
  split view nor the label, both panes of the diff editor holding one newline, no row
  selected, and the three buttons disabled.
\<close>

definition Cleared :: "SchemaCompareResult \<Rightarrow> bool" where
  "Cleared this \<longleftrightarrow>
     Loading this \<and> SplitView \<notin> set (flexModel this) \<and>
     NoDifferencesLabel \<notin> set (flexModel this) \<and>
     contentLeft this = [CHR 0x0A] \<and> contentRight this = [CHR 0x0A] \<and>
     selectedRows this = None \<and>
     \<not> compareButton this \<and> \<not> switchButton this \<and> \<not> generateScriptButton this"

section \<open>Example inputs\<close>

definition table1 :: DiffEntry where
  "table1 = DiffEntry Object ''Table1'' (Some ''CREATE TABLE T1'') None Delete
              (Some ''CREATE TABLE T1;'') None []"

definition dbEndpoint :: "string \<Rightarrow> SchemaCompareEndpointInfo" where
  "dbEndpoint n = \<lparr>endpointType = database, databaseName = n\<rparr>"

definition dacpacEndpoint :: SchemaCompareEndpointInfo where
  "dacpacEndpoint = \<lparr>endpointType = dacpac, databaseName = []\<rparr>"

definition freshPanel :: SchemaCompareResult where
  "freshPanel = SchemaCompareResult_new ''src'' ''tgt'' (dbEndpoint ''src'') (dbEndpoint ''tgt'')"

definition dacpacPanel :: SchemaCompareResult where
  "dacpacPanel = SchemaCompareResult_new ''src'' ''pkg'' (dbEndpoint ''src'') dacpacEndpoint"

text \<open>A provider that answers with one deleted table, one that answers with one changed
  table, one that answers with nothing, and one that reports a failure together with
  a difference.\<close>

definition okProvider :: DacFxServicesProvider where
  "okProvider s t =
     Some \<lparr>success = True, errorMessage = None, operationId = ''op1'',
           differences = Some [table1]\<rparr>"

definition changedTable :: DiffEntry where
  "changedTable = DiffEntry Object ''SqlTable'' (Some ''dbo.T1'') (Some ''dbo.T1'') Change
                    (Some ''CREATE TABLE T1 (a int);'') (Some ''CREATE TABLE T1 (b int);'') []"

definition changeProvider :: DacFxServicesProvider where
  "changeProvider s t =
     Some \<lparr>success = True, errorMessage = None, operationId = ''op3'',
           differences = Some [changedTable]\<rparr>"

definition absentProvider :: DacFxServicesProvider where
  "absentProvider s t = None"

definition failedProvider :: DacFxServicesProvider where
  "failedProvider s t =
     Some \<lparr>success = False, errorMessage = Some ''timeout'', operationId = ''op2'',
           differences = Some [table1]\<rparr>"

definition posixJoin :: "string \<Rightarrow> string \<Rightarrow> string" where
  "posixJoin dir file = dir @ ''/'' @ file"

definition exampleNow :: Date where
  "exampleNow = \<lparr>getFullYear = 2019, getMonth = 3, getDate = 9, getHours = 14, getMinutes = 5\<rparr>"

section \<open>Script aggregation: properties\<close>

lemma forEach_children:
  "foldl (\<lambda>script child. let childScript = f child
                          in if childScript \<noteq> skip then script @ childScript else script)
         acc xs
   = acc @ concat (map f (filter (\<lambda>child. f child \<noteq> skip) xs))"
  by (induction xs arbitrary: acc) (simp_all add: Let_def)

lemma getAggregatedScript_node:
  "getAggregatedScript (Some node) getSourceScript =
     toString (pick node getSourceScript) @
     concat (map (\<lambda>child. getAggregatedScript (Some child) getSourceScript)
               (filter (\<lambda>child. getAggregatedScript (Some child) getSourceScript \<noteq> ''null'')
                  (children node)))"
  by (subst getAggregatedScript.simps) (simp add: forEach_children pick_def)

lemma getAggregatedScript_leaf:
  "children node = [] \<Longrightarrow>
     getAggregatedScript (Some node) getSourceScript = toString (pick node getSourceScript)"
  by (subst getAggregatedScript_node) simp

text \<open>
  Claim C1, as the code has it: for either side, \<^verbatim>\<open>getAggregatedScript\<close> of an absent
  node is the empty string. The single newline is what the row selection handler
  shows for a side whose script is \<^verbatim>\<open>null\<close>; the aggregation never returns it for an
  absent node.
\<close>

theorem C1_absent_node_empty_string:
  "getAggregatedScript None getSourceScript = ''''"
  by simp

text \<open>
  Claim C1 as stated fails: the aggregate of an absent node on the source side is not
  the single newline.
\<close>

theorem C1_absent_node_not_newline:
  "getAggregatedScript None True \<noteq> [CHR 0x0A]"
  by simp

text \<open>
  Claim C2: the aggregate of a node is its own script of the chosen side, as string
  concatenation renders it, followed in child order by the aggregate of every child
  whose aggregate is not the text \<^verbatim>\<open>null\<close>; such a child adds nothing.
\<close>

theorem C2_preorder_concatenation:
  "getAggregatedScript (Some node) getSourceScript =
     toString (pick node getSourceScript) @
     concat (map (\<lambda>child. getAggregatedScript (Some child) getSourceScript)
               (filter (\<lambda>child. getAggregatedScript (Some child) getSourceScript \<noteq> ''null'')
                  (children node)))"
  by (rule getAggregatedScript_node)

theorem C2_preorder_concatenation_witness:
  "getAggregatedScript
     (Some (DiffEntry Object ''P'' (Some ''p'') None Change (Some ''A'') None
        [DiffEntry Property ''c1'' None None Change None None [],
         DiffEntry Property ''c2'' None None Change (Some ''B'') None []])) True = ''AB''"
  using C2_preorder_concatenation
    [of "DiffEntry Object ''P'' (Some ''p'') None Change (Some ''A'') None
          [DiffEntry Property ''c1'' None None Change None None [],
           DiffEntry Property ''c2'' None None Change (Some ''B'') None []]" True]
  by (simp add: getAggregatedScript_leaf toString_def pick_def)

text \<open>
  Claim C3: a node whose script of the chosen side is \<^verbatim>\<open>null\<close> contributes the text
  \<^verbatim>\<open>null\<close> itself; without children its aggregate is exactly that text; and a parent
  that has such a childless node among its children aggregates as if the node were
  not there.
\<close>

theorem C3_null_script_text:
  assumes "pick node getSourceScript = None"
  shows "getAggregatedScript (Some node) getSourceScript =
           ''null'' @
           concat (map (\<lambda>child. getAggregatedScript (Some child) getSourceScript)
                     (filter (\<lambda>child. getAggregatedScript (Some child) getSourceScript \<noteq> ''null'')
                        (children node)))
    \<and> (children node = [] \<longrightarrow> getAggregatedScript (Some node) getSourceScript = ''null'')
    \<and> (children node = [] \<longrightarrow>
           getAggregatedScript (Some (DiffEntry t n sv tv ua ss ts (pre @ node # post)))
             getSourceScript =
           getAggregatedScript (Some (DiffEntry t n sv tv ua ss ts (pre @ post)))
             getSourceScript)"
proof -
  have own: "getAggregatedScript (Some node) getSourceScript =
           ''null'' @
           concat (map (\<lambda>child. getAggregatedScript (Some child) getSourceScript)
                     (filter (\<lambda>child. getAggregatedScript (Some child) getSourceScript \<noteq> ''null'')
                        (children node)))"
    using assms by (subst getAggregatedScript_node) (simp add: toString_def)
  have leaf: "getAggregatedScript (Some node) getSourceScript = ''null''"
    if "children node = []"
    using that assms by (simp add: getAggregatedScript_leaf toString_def)
  have skipped: "getAggregatedScript (Some (DiffEntry t n sv tv ua ss ts (pre @ node # post)))
             getSourceScript =
           getAggregatedScript (Some (DiffEntry t n sv tv ua ss ts (pre @ post)))
             getSourceScript"
    if "children node = []"
  proof -
    from that have "getAggregatedScript (Some node) getSourceScript = ''null''"
      by (rule leaf)
    then show ?thesis
      by (simp add: getAggregatedScript_node [of "DiffEntry t n sv tv ua ss ts (pre @ node # post)"]
          getAggregatedScript_node [of "DiffEntry t n sv tv ua ss ts (pre @ post)"] pick_def)
  qed
  from own leaf skipped show ?thesis
    by blast
qed

theorem C3_null_script_text_witness:
  "pick (DiffEntry Property ''c'' None None Change None None []) True = None
   \<and> getAggregatedScript (Some (DiffEntry Property ''c'' None None Change None None [])) True
       = ''null''
   \<and> getAggregatedScript
       (Some (DiffEntry Object ''P'' (Some ''p'') None Change (Some ''A'') None
          ([] @ DiffEntry Property ''c'' None None Change None None [] # []))) True
     = getAggregatedScript
       (Some (DiffEntry Object ''P'' (Some ''p'') None Change (Some ''A'') None ([] @ []))) True"
proof -
  have h: "pick (DiffEntry Property ''c'' None None Change None None []) True = None"
    by (simp add: pick_def)
  show ?thesis
    using h C3_null_script_text [OF h, of Object "''P''" "Some ''p''" None Change "Some ''A''" None
        "[]" "[]"]
    by simp
qed

text \<open>
  Claim C4, as the code has it: the aggregate of a node without children is the node's
  own script of the chosen side when that field holds a string, and the four-character
  text \<^verbatim>\<open>null\<close> when the field is \<^verbatim>\<open>null\<close>.
\<close>

theorem C4_childless_own_script:
  assumes "children node = []"
  shows "getAggregatedScript (Some node) getSourceScript =
     (case pick node getSourceScript of Some script \<Rightarrow> script | None \<Rightarrow> ''null'')"
  using assms by (simp add: getAggregatedScript_leaf toString_def split: option.split)

theorem C4_childless_own_script_witness:
  "children (DiffEntry Object ''Table1'' (Some ''CREATE TABLE T1'') None Delete
       (Some ''CREATE TABLE T1;'') None []) = []
   \<and> getAggregatedScript
        (Some (DiffEntry Object ''Table1'' (Some ''CREATE TABLE T1'') None Delete
           (Some ''CREATE TABLE T1;'') None [])) True = ''CREATE TABLE T1;''
   \<and> getAggregatedScript
        (Some (DiffEntry Object ''Table1'' (Some ''CREATE TABLE T1'') None Delete
           (Some ''CREATE TABLE T1;'') None [])) False = ''null''"
  using C4_childless_own_script
      [of "DiffEntry Object ''Table1'' (Some ''CREATE TABLE T1'') None Delete
           (Some ''CREATE TABLE T1;'') None []" True]
    C4_childless_own_script
      [of "DiffEntry Object ''Table1'' (Some ''CREATE TABLE T1'') None Delete
           (Some ''CREATE TABLE T1;'') None []" False]
  by (simp add: pick_def)

text \<open>
  Claim C4 as stated fails on the target side of the specification's own example
  node: the node has no children and its target script is \<^verbatim>\<open>null\<close>, yet the aggregate is
  a string (the text \<^verbatim>\<open>null\<close>), not the field's value.
\<close>

theorem C4_childless_null_script_differs:
  "children (DiffEntry Object ''Table1'' (Some ''CREATE TABLE T1'') None Delete
       (Some ''CREATE TABLE T1;'') None []) = []
   \<and> Some (getAggregatedScript
        (Some (DiffEntry Object ''Table1'' (Some ''CREATE TABLE T1'') None Delete
           (Some ''CREATE TABLE T1;'') None [])) False)
     \<noteq> pick (DiffEntry Object ''Table1'' (Some ''CREATE TABLE T1'') None Delete
           (Some ''CREATE TABLE T1;'') None []) False"
  by (simp add: pick_def)

section \<open>Rows of the result table: properties\<close>

lemma SchemaCompareActionMap_label: "SchemaCompareActionMap a = Some (actionLabel a)"
  by (cases a) (simp_all add: SchemaCompareActionMap_def)

lemma forEach_rows:
  "foldl (\<lambda>data difference.
              if differenceType difference = Object then
                if sourceValue difference \<noteq> None \<or> targetValue difference \<noteq> None then
                  data @ [[Some (name difference), sourceValue difference,
                           SchemaCompareActionMap (updateAction difference),
                           targetValue difference]]
                else data
              else data) acc diffs
   = acc @ map displayRow (filter qualifies diffs)"
  by (induction diffs arbitrary: acc)
    (simp_all add: displayRow_def qualifies_def SchemaCompareActionMap_label)

lemma getAllDifferences_rows:
  "getAllDifferences diffs = map displayRow (filter qualifies diffs)"
  by (simp add: getAllDifferences_def forEach_rows)

text \<open>
  Claim C5: \<^verbatim>\<open>getAllDifferences\<close> yields, in input order, the row
  \<^verbatim>\<open>[name, sourceValue, label of updateAction, targetValue]\<close> of every top-level entry of
  type \<^verbatim>\<open>Object\<close> with a source or a target value, and nothing for any other entry or
  for any child; so there are as many rows as qualifying top-level entries, none for
  the empty input, and the labels are \<^verbatim>\<open>Delete\<close>, \<^verbatim>\<open>Change\<close> and \<^verbatim>\<open>Add\<close>.
\<close>

theorem C5_one_row_per_qualifying_entry:
  "getAllDifferences diffs = map displayRow (filter qualifies diffs)
   \<and> length (getAllDifferences diffs) = length (filter qualifies diffs)
   \<and> getAllDifferences [] = []
   \<and> SchemaCompareActionMap Delete = Some ''Delete''
   \<and> SchemaCompareActionMap Change = Some ''Change''
   \<and> SchemaCompareActionMap Add = Some ''Add''"
  by (simp add: getAllDifferences_rows SchemaCompareActionMap_def)

theorem C5_one_row_per_qualifying_entry_witness:
  "getAllDifferences
     [DiffEntry Object ''Table1'' (Some ''CREATE TABLE T1'') None Delete
        (Some ''CREATE TABLE T1;'') None
        [DiffEntry Object ''Col'' (Some ''c'') None Delete None None []],
      DiffEntry Property ''Prop'' (Some ''x'') (Some ''y'') Change None None [],
      DiffEntry Object ''Empty'' None None Add None None [],
      DiffEntry Object ''View1'' None (Some ''V1'') Add None (Some ''CREATE VIEW V1;'') []]
   = [[Some ''Table1'', Some ''CREATE TABLE T1'', Some ''Delete'', None],
      [Some ''View1'', None, Some ''Add'', Some ''V1'']]"
  using C5_one_row_per_qualifying_entry
    [of "[DiffEntry Object ''Table1'' (Some ''CREATE TABLE T1'') None Delete
        (Some ''CREATE TABLE T1;'') None
        [DiffEntry Object ''Col'' (Some ''c'') None Delete None None []],
      DiffEntry Property ''Prop'' (Some ''x'') (Some ''y'') Change None None [],
      DiffEntry Object ''Empty'' None None Add None None [],
      DiffEntry Object ''View1'' None (Some ''V1'') Add None (Some ''CREATE VIEW V1;'') []]"]
  by (simp add: qualifies_def displayRow_def)

section \<open>The comparison run: properties\<close>

lemma execute_Inr:
  assumes "execute service this = Inr this'"
  obtains result diffs where
    "service (sourceEndpointInfo this) (targetEndpointInfo this) = Some result"
    "differences result = Some diffs"
    "tableData this' = getAllDifferences diffs"
    "tableColumns this' = resultColumns"
    "comparisonResult this' = Some result"
    "flexModel this' = addItem (if length diffs > 0 then SplitView else NoDifferencesLabel)
        (removeItem Loader (flexModel this))"
    "generateScriptButton this' =
       (generateScriptButton this \<or> endpointType (targetEndpointInfo this) = database)"
    "targetEndpointInfo this' = targetEndpointInfo this"
    "sourceEndpointInfo this' = sourceEndpointInfo this"
    "switchButton this'" "compareButton this'"
  using assms
  by (auto simp: execute_def Let_def showErrorMessage_def split: option.splits if_splits)



lemma execute_ok:
  "execute okProvider freshPanel =
     Inr (freshPanel\<lparr>comparisonResult := okProvider (dbEndpoint ''src'') (dbEndpoint ''tgt''),
            schemaCompareCalls := [(dbEndpoint ''src'', dbEndpoint ''tgt'')],
            tableData := [[Some ''Table1'', Some ''CREATE TABLE T1'', Some ''Delete'', None]],
            tableColumns := resultColumns,
            splitView := [DifferencesTable, DiffEditor],
            flexModel := [ToolBar, SourceTargetFlexLayout, SplitView],
            switchButton := True, compareButton := True, generateScriptButton := True\<rparr>)"
  by (simp add: execute_def freshPanel_def SchemaCompareResult_new_def okProvider_def
      dbEndpoint_def Let_def getAllDifferences_rows qualifies_def displayRow_def table1_def
      addItem_def removeItem_def)

lemma execute_change:
  "execute changeProvider freshPanel =
     Inr (freshPanel\<lparr>comparisonResult := changeProvider (dbEndpoint ''src'') (dbEndpoint ''tgt''),
            schemaCompareCalls := [(dbEndpoint ''src'', dbEndpoint ''tgt'')],
            tableData := [[Some ''SqlTable'', Some ''dbo.T1'', Some ''Change'', Some ''dbo.T1'']],
            tableColumns := resultColumns,
            splitView := [DifferencesTable, DiffEditor],
            flexModel := [ToolBar, SourceTargetFlexLayout, SplitView],
            switchButton := True, compareButton := True, generateScriptButton := True\<rparr>)"
  by (simp add: execute_def freshPanel_def SchemaCompareResult_new_def changeProvider_def
      dbEndpoint_def Let_def getAllDifferences_rows qualifies_def displayRow_def
      changedTable_def addItem_def removeItem_def)

text \<open>
  Claim C6, as the code has it: a run that returns hands the table the four columns
  Type, Source Name, Action and Target Name and, for every row, four cells in that
  order: the name of the entry the row was made from, its source value, the label of
  its action and its target value. The first cell, at the position of the Type column,
  is the entry's name: a string, never \<^verbatim>\<open>null\<close>.
\<close>

theorem C6_first_cell_is_name:
  assumes "execute service this = Inr this'" and "row \<in> set (tableData this')"
  shows "map columnValue (tableColumns this') =
           [''Type'', ''Source Name'', ''Action'', ''Target Name'']
         \<and> length row = length (tableColumns this')
         \<and> (\<exists>result diffs node.
               comparisonResult this' = Some result \<and> differences result = Some diffs \<and>
               node \<in> set diffs \<and> qualifies node \<and>
               row = [Some (name node), sourceValue node,
                      Some (actionLabel (updateAction node)), targetValue node] \<and>
               row ! 0 = Some (name node))"
proof -
  from assms(1) obtain result diffs where
    r: "comparisonResult this' = Some result" "differences result = Some diffs"
      "tableData this' = getAllDifferences diffs" "tableColumns this' = resultColumns"
    by (rule execute_Inr)
  from assms(2) r(3) obtain node where
    n: "node \<in> set diffs" "qualifies node" "row = displayRow node"
    by (auto simp: getAllDifferences_rows)
  have "map columnValue resultColumns = [''Type'', ''Source Name'', ''Action'', ''Target Name'']"
    by (simp add: resultColumns_def)
  moreover have "length row = length resultColumns"
    by (simp add: n(3) displayRow_def resultColumns_def)
  moreover have "row = [Some (name node), sourceValue node,
      Some (actionLabel (updateAction node)), targetValue node]"
    by (simp add: n(3) displayRow_def)
  moreover from this have "row ! 0 = Some (name node)"
    by simp
  ultimately show ?thesis
    using r n by auto
qed

theorem C6_first_cell_is_name_witness:
  "execute okProvider freshPanel = Inr (stateOf (execute okProvider freshPanel))
   \<and> [Some ''Table1'', Some ''CREATE TABLE T1'', Some ''Delete'', None]
       \<in> set (tableData (stateOf (execute okProvider freshPanel)))
   \<and> map columnValue (tableColumns (stateOf (execute okProvider freshPanel))) =
       [''Type'', ''Source Name'', ''Action'', ''Target Name'']
   \<and> length [Some ''Table1'', Some ''CREATE TABLE T1'', Some ''Delete'', None :: string option]
       = length (tableColumns (stateOf (execute okProvider freshPanel)))"
proof -
  have e: "execute okProvider freshPanel = Inr (stateOf (execute okProvider freshPanel))"
    by (simp add: execute_ok stateOf_def)
  have m: "[Some ''Table1'', Some ''CREATE TABLE T1'', Some ''Delete'', None]
      \<in> set (tableData (stateOf (execute okProvider freshPanel)))"
    by (simp add: execute_ok stateOf_def)
  from C6_first_cell_is_name [OF e m] show ?thesis
    using e m by simp
qed

text \<open>
  Claim C6 as stated fails: after a run on one changed table, the table has the four
  columns and one row of four cells, and every cell of that row holds a value, the
  first one the entry's name \<^verbatim>\<open>SqlTable\<close>. Whichever cell of the row the table shows
  under the Type column, it is not without a value.
\<close>

theorem C6_row_has_no_empty_cell:
  "map columnValue (tableColumns (stateOf (execute changeProvider freshPanel))) =
     [''Type'', ''Source Name'', ''Action'', ''Target Name'']
   \<and> tableData (stateOf (execute changeProvider freshPanel)) =
     [[Some ''SqlTable'', Some ''dbo.T1'', Some ''Change'', Some ''dbo.T1'']]
   \<and> None \<notin> set (concat (tableData (stateOf (execute changeProvider freshPanel))))"
  by (simp add: execute_change stateOf_def resultColumns_def)

text \<open>
  Claim C7 at an absent result: the provider answers with nothing on a fresh panel.
  The guard of \<^verbatim>\<open>execute\<close> tests for the absent result and then reads its
  \<^verbatim>\<open>errorMessage\<close>, which throws before \<^verbatim>\<open>showErrorMessage\<close> is called: the run ends
  with a \<^verbatim>\<open>TypeError\<close> and no message has been shown.
\<close>


theorem C7_absent_result_shows_no_message:
  "start absentProvider freshPanel =
     Inl (TypeError, freshPanel\<lparr>comparisonResult := None,
            schemaCompareCalls := [(dbEndpoint ''src'', dbEndpoint ''tgt'')]\<rparr>)
   \<and> errorMessages (stateOf (start absentProvider freshPanel)) = []"
  by (simp add: start_def execute_def absentProvider_def freshPanel_def
      SchemaCompareResult_new_def stateOf_def)

text \<open>
  A result that reports a failure makes \<^verbatim>\<open>execute\<close> show the message with the
  provider's text, or \<^verbatim>\<open>Unknown\<close> for an absent or empty text, and then go on: when the
  result carries differences the table is filled and the panel leaves the loading
  state.
\<close>


lemma execute_failure_message:
  assumes "service (sourceEndpointInfo this) (targetEndpointInfo this) = Some result"
    and "\<not> success result"
  shows "errorMessages (stateOf (execute service this)) =
     errorMessages this @
       [compareErrorMessage (case errorMessage result of
           None \<Rightarrow> ''Unknown'' | Some m \<Rightarrow> if m = [] then ''Unknown'' else m)]"
  using assms
  by (auto simp: execute_def Let_def showErrorMessage_def stateOf_def truthy_def
      split: option.splits)

lemma execute_failed_result_renders:
  "execute failedProvider freshPanel =
     Inr (freshPanel\<lparr>comparisonResult := failedProvider (dbEndpoint ''src'') (dbEndpoint ''tgt''),
            schemaCompareCalls := [(dbEndpoint ''src'', dbEndpoint ''tgt'')],
            errorMessages := [''Schema Compare failed '' @ [CHR 0x27] @ ''timeout'' @ [CHR 0x27]],
            tableData := [[Some ''Table1'', Some ''CREATE TABLE T1'', Some ''Delete'', None]],
            tableColumns := resultColumns,
            splitView := [DifferencesTable, DiffEditor],
            flexModel := [ToolBar, SourceTargetFlexLayout, SplitView],
            switchButton := True, compareButton := True, generateScriptButton := True\<rparr>)"
  by (simp add: execute_def freshPanel_def SchemaCompareResult_new_def failedProvider_def
      dbEndpoint_def Let_def getAllDifferences_rows qualifies_def displayRow_def table1_def
      addItem_def removeItem_def showErrorMessage_def compareErrorMessage_def truthy_def)

lemma execute_calls:
  "schemaCompareCalls (stateOf (execute service this)) =
     schemaCompareCalls this @ [(sourceEndpointInfo this, targetEndpointInfo this)]"
  by (auto simp: execute_def Let_def showErrorMessage_def stateOf_def split: option.splits)

lemma reExecute_reset_Cleared:
  "Populated hasDifferences this \<Longrightarrow> Cleared (reExecute_reset this)"
  by (auto simp: Populated_def Cleared_def Loading_def reExecute_reset_def Let_def
      removeItem_def addItem_def)

lemma execute_Loading_Populated:
  assumes "Loading this" and "execute service this = Inr this'"
  shows "\<exists>hasDifferences. Populated hasDifferences this'"
proof -
  from assms(2) obtain diffs :: "DiffEntry list" where
    "flexModel this' = addItem (if length diffs > 0 then SplitView else NoDifferencesLabel)
        (removeItem Loader (flexModel this))"
    by (rule execute_Inr)
  with assms(1) have "Populated (length diffs > 0) this'"
    by (simp add: Populated_def Loading_def addItem_def removeItem_def)
  then show ?thesis ..
qed

lemma execute_okProvider:
  "execute okProvider this = Inr (stateOf (execute okProvider this))"
  by (simp add: execute_def okProvider_def Let_def stateOf_def)

text \<open>
  Claim C8: from a populated panel, \<^verbatim>\<open>reExecute\<close> first removes the split view (with
  the result table) and the no-differences label and shows the loader, sets both panes
  of the diff editor to one newline, clears the row selection and disables the
  compare, switch and generate-script buttons; it then runs \<^verbatim>\<open>execute\<close> on that state,
  which calls the provider once more with the current endpoints. Both the compare
  button and the switch button (after swapping source and target) go through it.
\<close>


theorem C8_reExecute_clears_and_reruns:
  assumes "Populated hasDifferences this"
  shows "Cleared (reExecute_reset this)
    \<and> compareButton_onDidClick service this = execute service (reExecute_reset this)
    \<and> schemaCompareCalls (stateOf (compareButton_onDidClick service this)) =
        schemaCompareCalls this @ [(sourceEndpointInfo this, targetEndpointInfo this)]
    \<and> (\<exists>swapped. Populated hasDifferences swapped
          \<and> sourceEndpointInfo swapped = targetEndpointInfo this
          \<and> targetEndpointInfo swapped = sourceEndpointInfo this
          \<and> Cleared (reExecute_reset swapped)
          \<and> switchButton_onDidClick service this = execute service (reExecute_reset swapped))
    \<and> schemaCompareCalls (stateOf (switchButton_onDidClick service this)) =
        schemaCompareCalls this @ [(targetEndpointInfo this, sourceEndpointInfo this)]"
proof -
  let ?swapped = "this\<lparr>sourceDropdown := targetDropdown this,
      targetDropdown := sourceDropdown this,
      sourceEndpointInfo := targetEndpointInfo this,
      targetEndpointInfo := sourceEndpointInfo this,
      sourceName := targetName this, targetName := sourceName this\<rparr>"
  have sw: "switchButton_onDidClick service this = execute service (reExecute_reset ?swapped)"
    by (simp add: switchButton_onDidClick_def reExecute_def Let_def)
  have ps: "Populated hasDifferences ?swapped"
    using assms by (simp add: Populated_def)
  have c1: "Cleared (reExecute_reset this)"
    using assms by (rule reExecute_reset_Cleared)
  have c2: "compareButton_onDidClick service this = execute service (reExecute_reset this)"
    by (simp add: compareButton_onDidClick_def reExecute_def)
  have c3: "schemaCompareCalls (stateOf (compareButton_onDidClick service this)) =
        schemaCompareCalls this @ [(sourceEndpointInfo this, targetEndpointInfo this)]"
    by (simp add: c2 execute_calls) (simp add: reExecute_reset_def Let_def)
  have c4: "\<exists>swapped. Populated hasDifferences swapped
          \<and> sourceEndpointInfo swapped = targetEndpointInfo this
          \<and> targetEndpointInfo swapped = sourceEndpointInfo this
          \<and> Cleared (reExecute_reset swapped)
          \<and> switchButton_onDidClick service this = execute service (reExecute_reset swapped)"
    using sw ps reExecute_reset_Cleared [OF ps]
    by (intro exI [of _ ?swapped]) simp
  have c5: "schemaCompareCalls (stateOf (switchButton_onDidClick service this)) =
        schemaCompareCalls this @ [(targetEndpointInfo this, sourceEndpointInfo this)]"
    by (simp add: sw execute_calls) (simp add: reExecute_reset_def Let_def)
  from c1 c2 c3 c4 c5 show ?thesis by blast
qed

theorem C8_reExecute_clears_and_reruns_witness:
  "Populated True (stateOf (execute okProvider freshPanel))
   \<and> Cleared (reExecute_reset (stateOf (execute okProvider freshPanel)))
   \<and> schemaCompareCalls
        (stateOf (compareButton_onDidClick okProvider (stateOf (execute okProvider freshPanel))))
      = [(dbEndpoint ''src'', dbEndpoint ''tgt''), (dbEndpoint ''src'', dbEndpoint ''tgt'')]
   \<and> schemaCompareCalls
        (stateOf (switchButton_onDidClick okProvider (stateOf (execute okProvider freshPanel))))
      = [(dbEndpoint ''src'', dbEndpoint ''tgt''), (dbEndpoint ''tgt'', dbEndpoint ''src'')]"
proof -
  let ?P = "stateOf (execute okProvider freshPanel)"
  have p: "Populated True ?P"
    by (simp add: execute_ok stateOf_def Populated_def)
  have f: "schemaCompareCalls ?P = [(dbEndpoint ''src'', dbEndpoint ''tgt'')]"
    "sourceEndpointInfo ?P = dbEndpoint ''src''" "targetEndpointInfo ?P = dbEndpoint ''tgt''"
    by (simp_all add: execute_ok stateOf_def) (simp_all add: freshPanel_def SchemaCompareResult_new_def)
  from C8_reExecute_clears_and_reruns [OF p, of okProvider]
  have "Cleared (reExecute_reset ?P)"
    and "schemaCompareCalls (stateOf (compareButton_onDidClick okProvider ?P)) =
        schemaCompareCalls ?P @ [(sourceEndpointInfo ?P, targetEndpointInfo ?P)]"
    and "schemaCompareCalls (stateOf (switchButton_onDidClick okProvider ?P)) =
        schemaCompareCalls ?P @ [(targetEndpointInfo ?P, sourceEndpointInfo ?P)]"
    by blast+
  with p show ?thesis
    by (simp add: f)
qed

section \<open>The generate-script button\<close>


lemma reExecute_reset_fields:
  "generateScriptButton (reExecute_reset this) = False"
  "targetEndpointInfo (reExecute_reset this) = targetEndpointInfo this"
  "sourceEndpointInfo (reExecute_reset this) = sourceEndpointInfo this"
  by (simp_all add: reExecute_reset_def Let_def)

lemma execute_dacpac:
  "execute okProvider dacpacPanel =
     Inr (dacpacPanel\<lparr>comparisonResult := okProvider (dbEndpoint ''src'') dacpacEndpoint,
            schemaCompareCalls := [(dbEndpoint ''src'', dacpacEndpoint)],
            tableData := [[Some ''Table1'', Some ''CREATE TABLE T1'', Some ''Delete'', None]],
            tableColumns := resultColumns,
            splitView := [DifferencesTable, DiffEditor],
            flexModel := [ToolBar, SourceTargetFlexLayout, SplitView],
            switchButton := True, compareButton := True\<rparr>)"
  by (simp add: execute_def dacpacPanel_def SchemaCompareResult_new_def okProvider_def
      dbEndpoint_def dacpacEndpoint_def Let_def getAllDifferences_rows qualifies_def
      displayRow_def table1_def addItem_def removeItem_def)

text \<open>
  Claim C10: the generate-script button is disabled when the panel is created and
  after the reset of every re-execution; after a run that completes, whether started
  by \<^verbatim>\<open>start\<close>, by the compare button or by the switch button, it is enabled exactly
  when the target endpoint of that run is a database.
\<close>


theorem C10_generate_enabled_iff_database:
  "\<not> generateScriptButton (SchemaCompareResult_new sName tName sInfo tInfo)
   \<and> \<not> generateScriptButton (reExecute_reset this)
   \<and> (start service (SchemaCompareResult_new sName tName sInfo tInfo) = Inr this1 \<longrightarrow>
        targetEndpointInfo this1 = tInfo \<and>
        generateScriptButton this1 = (endpointType tInfo = database))
   \<and> (compareButton_onDidClick service this = Inr this2 \<longrightarrow>
        targetEndpointInfo this2 = targetEndpointInfo this \<and>
        generateScriptButton this2 = (endpointType (targetEndpointInfo this) = database))
   \<and> (switchButton_onDidClick service this = Inr this3 \<longrightarrow>
        targetEndpointInfo this3 = sourceEndpointInfo this \<and>
        generateScriptButton this3 = (endpointType (sourceEndpointInfo this) = database))"
proof -
  have a: "\<not> generateScriptButton (SchemaCompareResult_new sName tName sInfo tInfo)"
    by (simp add: SchemaCompareResult_new_def)
  have b: "\<not> generateScriptButton (reExecute_reset this)"
    by (simp add: reExecute_reset_fields)
  have c: "targetEndpointInfo this1 = tInfo \<and>
        generateScriptButton this1 = (endpointType tInfo = database)"
    if "start service (SchemaCompareResult_new sName tName sInfo tInfo) = Inr this1"
  proof -
    from that have "execute service (SchemaCompareResult_new sName tName sInfo tInfo) = Inr this1"
      by (simp add: start_def)
    then show ?thesis
      by (rule execute_Inr) (simp add: SchemaCompareResult_new_def)
  qed
  have d: "targetEndpointInfo this2 = targetEndpointInfo this \<and>
        generateScriptButton this2 = (endpointType (targetEndpointInfo this) = database)"
    if "compareButton_onDidClick service this = Inr this2"
  proof -
    from that have "execute service (reExecute_reset this) = Inr this2"
      by (simp add: compareButton_onDidClick_def reExecute_def)
    then show ?thesis
      by (rule execute_Inr) (simp add: reExecute_reset_fields)
  qed
  have e: "targetEndpointInfo this3 = sourceEndpointInfo this \<and>
        generateScriptButton this3 = (endpointType (sourceEndpointInfo this) = database)"
    if "switchButton_onDidClick service this = Inr this3"
  proof -
    from that have "execute service (reExecute_reset (this\<lparr>sourceDropdown := targetDropdown this,
      targetDropdown := sourceDropdown this,
      sourceEndpointInfo := targetEndpointInfo this,
      targetEndpointInfo := sourceEndpointInfo this,
      sourceName := targetName this, targetName := sourceName this\<rparr>)) = Inr this3"
      by (simp add: switchButton_onDidClick_def reExecute_def Let_def)
    then show ?thesis
      by (rule execute_Inr) (simp add: reExecute_reset_fields)
  qed
  from a b c d e show ?thesis by blast
qed

theorem C10_generate_enabled_iff_database_witness:
  "\<not> generateScriptButton (stateOf (execute okProvider dacpacPanel))
   \<and> generateScriptButton
       (stateOf (switchButton_onDidClick okProvider (stateOf (execute okProvider dacpacPanel))))
   \<and> \<not> generateScriptButton
       (stateOf (compareButton_onDidClick okProvider (stateOf (execute okProvider dacpacPanel))))"
proof -
  let ?P = "stateOf (execute okProvider dacpacPanel)"
  have f: "sourceEndpointInfo ?P = dbEndpoint ''src''" "targetEndpointInfo ?P = dacpacEndpoint"
    by (simp_all add: execute_dacpac stateOf_def)
      (simp_all add: dacpacPanel_def SchemaCompareResult_new_def)
  have s: "start okProvider (SchemaCompareResult_new ''src'' ''pkg'' (dbEndpoint ''src'') dacpacEndpoint)
      = Inr ?P"
    unfolding start_def dacpacPanel_def [symmetric] by (rule execute_okProvider)
  have sw: "switchButton_onDidClick okProvider ?P
       = Inr (stateOf (switchButton_onDidClick okProvider ?P))"
    unfolding switchButton_onDidClick_def reExecute_def Let_def by (rule execute_okProvider)
  have cb: "compareButton_onDidClick okProvider ?P
       = Inr (stateOf (compareButton_onDidClick okProvider ?P))"
    unfolding compareButton_onDidClick_def reExecute_def by (rule execute_okProvider)
  from C10_generate_enabled_iff_database [of "''src''" "''pkg''" "dbEndpoint ''src''" dacpacEndpoint ?P okProvider ?P
      "stateOf (compareButton_onDidClick okProvider ?P)"
      "stateOf (switchButton_onDidClick okProvider ?P)"] s sw cb
  have "generateScriptButton ?P = (endpointType dacpacEndpoint = database)"
    and "generateScriptButton (stateOf (compareButton_onDidClick okProvider ?P))
      = (endpointType (targetEndpointInfo ?P) = database)"
    and "generateScriptButton (stateOf (switchButton_onDidClick okProvider ?P))
      = (endpointType (sourceEndpointInfo ?P) = database)"
    by blast+
  then show ?thesis
    by (simp add: f dacpacEndpoint_def dbEndpoint_def)
qed

lemma decimalValue_snoc:
  "decimalValue (s @ [c]) = 10 * decimalValue s + (of_char c - 48)"
  by (simp add: decimalValue_def)

lemma of_char_digitChar:
  assumes "d < 10"
  shows "of_char (digitChar d) = 48 + d"
proof -
  from assms have "d = 0 \<or> d = 1 \<or> d = 2 \<or> d = 3 \<or> d = 4 \<or> d = 5 \<or> d = 6 \<or> d = 7
      \<or> d = 8 \<or> d = 9"
    by arith
  then show ?thesis
    by (elim disjE) (simp_all add: digitChar_def)
qed

lemma decimalValue_numberToString: "decimalValue (numberToString n) = n"
proof (induction n rule: numberToString.induct)
  case (1 n)
  show ?case
  proof (cases "n < 10")
    case True
    then show ?thesis
      by (subst numberToString.simps) (simp add: decimalValue_def of_char_digitChar)
  next
    case False
    with 1 have "decimalValue (numberToString (n div 10)) = n div 10"
      by simp
    with False show ?thesis
      by (subst numberToString.simps) (simp add: decimalValue_snoc of_char_digitChar)
  qed
qed

text \<open>
  Claim C9: the file name joined to the home directory as the default destination is
  the target name, \<^verbatim>\<open>_Update_\<close>, then year, month, day, hour and minute separated by
  hyphens, then \<^verbatim>\<open>.sql\<close>; every field is the decimal rendering of the date's field, the
  month that of \<^verbatim>\<open>getMonth() + 1\<close>, the month number counted from one.
\<close>


theorem C9_default_file_name:
  "defaultFilePath path_join homedir this now =
     path_join homedir
       (fileNamePattern (targetName this)
          (numberToString (getFullYear now)) (numberToString (getMonth now + 1))
          (numberToString (getDate now)) (numberToString (getHours now))
          (numberToString (getMinutes now)))
   \<and> decimalValue (numberToString (getFullYear now)) = getFullYear now
   \<and> decimalValue (numberToString (getMonth now + 1)) = getMonth now + 1
   \<and> decimalValue (numberToString (getDate now)) = getDate now
   \<and> decimalValue (numberToString (getHours now)) = getHours now
   \<and> decimalValue (numberToString (getMinutes now)) = getMinutes now"
  by (simp add: defaultFilePath_def datetime_def fileNamePattern_def decimalValue_numberToString)

theorem C9_default_file_name_witness:
  "defaultFilePath posixJoin ''/home/u'' freshPanel exampleNow =
     ''/home/u/tgt_Update_2019-4-9-14-5.sql''"
  using C9_default_file_name [of posixJoin "''/home/u''" freshPanel exampleNow]
  by (simp add: posixJoin_def fileNamePattern_def freshPanel_def SchemaCompareResult_new_def
      exampleNow_def numberToString.simps digitChar_def)

section \<open>Row selection\<close>

text \<open>
  The single newline of the diff editor comes from the row selection handler: a
  selected entry whose script of a side is \<^verbatim>\<open>null\<close> shows one newline on that side, and
  the aggregation is not called for it.
\<close>

lemma onRowSelected_null_script_newline:
  assumes "comparisonResult this = Some result" and "differences result = Some diffs"
    and "selectedRows this = Some (i # rest)" and "i < length diffs"
  shows "\<exists>this'. onRowSelected this = Inr this'
    \<and> (sourceScript (diffs ! i) = None \<longrightarrow> contentLeft this' = [CHR 0x0A])
    \<and> (targetScript (diffs ! i) = None \<longrightarrow> contentRight this' = [CHR 0x0A])"
  using assms by (simp add: onRowSelected_def Let_def)

end
